theory Spec2Isabelle
  imports Complex_Main
begin

section \<open>Straight-line depreciation of fixed assets\<close>

text \<open>
  A shallow embedding of \<^verbatim>\<open>src/app.py\<close> (and of its earlier variants
  \<^verbatim>\<open>src/tmp/main.py\<close> and \<^verbatim>\<open>src/tmp/main1.py\<close>): the class \<^verbatim>\<open>Asset\<close> with
  \<^verbatim>\<open>validate\<close>, \<^verbatim>\<open>straight_line_depreciation\<close> and \<^verbatim>\<open>calculate_depreciation\<close>, and
  the function \<^verbatim>\<open>generate_depreciation_report\<close>.

  Number model. The amounts \<^verbatim>\<open>cost\<close>, \<^verbatim>\<open>carcass_value\<close> and \<^verbatim>\<open>remaining_amount\<close> are
  exact rationals (\<^typ>\<open>rat\<close>), the "decimal" of the data model; \<^verbatim>\<open>life_years\<close> is a
  Python \<^verbatim>\<open>int\<close>. The rounding error of binary floating point is not part of
  this model: subtraction and division are exact here.

  String model. A character is a code point below 256, which is what \<^typ>\<open>char\<close> holds.
\<close>

subsection \<open>Exceptions\<close>

datatype py_error = ZeroDivisionError | TypeError | ValueError | AttributeError

subsection \<open>\<^verbatim>\<open>datetime.date\<close>\<close>

record date =
  year :: int
  month :: int
  day :: int

definition is_leap :: "int \<Rightarrow> bool" where
  "is_leap y \<longleftrightarrow> y mod 4 = 0 \<and> (y mod 100 \<noteq> 0 \<or> y mod 400 = 0)"

definition days_in_month :: "int \<Rightarrow> int \<Rightarrow> int" where
  "days_in_month y m =
     (if m = 2 then (if is_leap y then 29 else 28)
      else if m = 4 \<or> m = 6 \<or> m = 9 \<or> m = 11 then 30 else 31)"

text \<open>\<^verbatim>\<open>datetime.date(y, m, d)\<close>: a \<^verbatim>\<open>ValueError\<close> outside
  \<^verbatim>\<open>MINYEAR = 1\<close> .. \<^verbatim>\<open>MAXYEAR = 9999\<close>, outside the months and outside the days of
  the month.\<close>

definition datetime_date :: "int \<Rightarrow> int \<Rightarrow> int \<Rightarrow> py_error + date" where
  "datetime_date y m d =
     (if \<not> (1 \<le> y \<and> y \<le> 9999) then Inl ValueError
      else if \<not> (1 \<le> m \<and> m \<le> 12) then Inl ValueError
      else if \<not> (1 \<le> d \<and> d \<le> days_in_month y m) then Inl ValueError
      else Inr \<lparr>year = y, month = m, day = d\<rparr>)"

text \<open>The order of dates: by year, then month, then day.\<close>

definition date_less :: "date \<Rightarrow> date \<Rightarrow> bool" where
  "date_less a b \<longleftrightarrow>
     year a < year b \<or> (year a = year b \<and>
       (month a < month b \<or> (month a = month b \<and> day a < day b)))"

text \<open>\<^verbatim>\<open>x < d\<close> and \<^verbatim>\<open>x > d\<close> where \<^verbatim>\<open>d\<close> is a date and \<^verbatim>\<open>x\<close> is a date or \<^verbatim>\<open>None\<close>:
  comparing \<^verbatim>\<open>None\<close> with a date raises \<^verbatim>\<open>TypeError\<close>.\<close>

definition py_date_lt :: "date option \<Rightarrow> date \<Rightarrow> py_error + bool" where
  "py_date_lt x d = (case x of None \<Rightarrow> Inl TypeError | Some p \<Rightarrow> Inr (date_less p d))"

definition py_date_gt :: "date option \<Rightarrow> date \<Rightarrow> py_error + bool" where
  "py_date_gt x d = (case x of None \<Rightarrow> Inl TypeError | Some p \<Rightarrow> Inr (date_less d p))"

subsection \<open>\<^verbatim>\<open>str.strip\<close>, \<^verbatim>\<open>str.lower\<close> and \<^verbatim>\<open>round\<close>\<close>

text \<open>The white space of \<^verbatim>\<open>str.isspace\<close> among the code points below 256.\<close>

definition is_space :: "char \<Rightarrow> bool" where
  "is_space c \<longleftrightarrow>
     (let n = (of_char c :: nat)
      in (9 \<le> n \<and> n \<le> 13) \<or> (28 \<le> n \<and> n \<le> 32) \<or> n = 133 \<or> n = 160)"

definition strip :: "string \<Rightarrow> string" where
  "strip s = rev (dropWhile is_space (rev (dropWhile is_space s)))"

text \<open>\<^verbatim>\<open>str.lower\<close> on the code points below 256: the letters A to Z, and the
  capital letters of Latin-1 (192 to 222 without the multiplication sign 215).\<close>

definition lower_char :: "char \<Rightarrow> char" where
  "lower_char c =
     (let n = (of_char c :: nat)
      in if (65 \<le> n \<and> n \<le> 90) \<or> (192 \<le> n \<and> n \<le> 222 \<and> n \<noteq> 215)
         then char_of (n + 32) else c)"

definition lower :: "string \<Rightarrow> string" where
  "lower s = map lower_char s"

text \<open>\<^verbatim>\<open>round(x)\<close> rounds to the nearest integer and a tie to the even one;
  \<^verbatim>\<open>round(x, 2)\<close> does so at the second decimal place.\<close>

definition round_half_even :: "rat \<Rightarrow> int" where
  "round_half_even x =
     (let f = \<lfloor>x\<rfloor>; r = x - of_int f
      in if r < 1 / 2 then f
         else if 1 / 2 < r then f + 1
         else if even f then f else f + 1)"

definition round2 :: "rat \<Rightarrow> rat" where
  "round2 x = of_int (round_half_even (x * 100)) / 100"

subsection \<open>The class \<^verbatim>\<open>Asset\<close>\<close>

text \<open>A \<^verbatim>\<open>purchase_date\<close> that is \<^verbatim>\<open>None\<close> (or empty) is \<^term>\<open>None\<close>.\<close>

record asset =
  item_no :: string
  item_type :: string
  purchase_date :: "date option"
  cost :: rat
  carcass_value :: rat
  life_years :: int
  last_depr_date :: "date option"
  remaining_amount :: rat

text \<open>\<^verbatim>\<open>Asset.__init__\<close>: \<^verbatim>\<open>last_depr_date or purchase_date\<close>, and
  \<^verbatim>\<open>remaining_amount if remaining_amount is not None else cost\<close>.\<close>

definition Asset ::
  "string \<Rightarrow> string \<Rightarrow> date option \<Rightarrow> rat \<Rightarrow> rat \<Rightarrow> int \<Rightarrow> date option \<Rightarrow> rat option \<Rightarrow> asset"
where
  "Asset ino ity pd c cv ly ldd ra =
     \<lparr>item_no = ino, item_type = ity, purchase_date = pd, cost = c, carcass_value = cv,
      life_years = ly,
      last_depr_date = (case ldd of Some d \<Rightarrow> Some d | None \<Rightarrow> pd),
      remaining_amount = (case ra of Some r \<Rightarrow> r | None \<Rightarrow> c)\<rparr>"

text \<open>\<^verbatim>\<open>Asset.validate\<close> reads the asset and returns the pair \<^verbatim>\<open>(ok, message)\<close>.\<close>

definition validate :: "asset \<Rightarrow> bool \<times> string option" where
  "validate a =
     (if item_type a \<noteq> ''FA''
      then (False, Some (''Skipping item '' @ item_no a @ '': Not a Fixed Asset (FA).''))
      else if purchase_date a = None
      then (False, Some (''Error: Missing purchase date for item '' @ item_no a @ ''.''))
      else (True, None))"

text \<open>\<^verbatim>\<open>Asset.straight_line_depreciation\<close>: the division raises on a zero divisor.\<close>

definition straight_line_depreciation :: "asset \<Rightarrow> py_error + rat" where
  "straight_line_depreciation a =
     (if life_years a = 0 then Inl ZeroDivisionError
      else Inr ((cost a - carcass_value a) / of_int (life_years a)))"

subsection \<open>Report rows\<close>

record report_row =
  r_item_no :: string
  r_purchase_date :: "date option"
  r_cost :: rat
  r_carcass_value :: rat
  r_life_years :: int
  r_year :: int
  r_depreciation :: rat
  r_remaining_amount :: rat
  r_last_depr_date :: "date option"

text \<open>The row that the loop body appends. The three variants of the loop differ only
  in how the two amounts are written into the row: \<^verbatim>\<open>round(x, 2)\<close> in
  \<^verbatim>\<open>app.py\<close> and \<^verbatim>\<open>main1.py\<close>, the value itself in \<^verbatim>\<open>main.py\<close>; \<open>rnd\<close> stands for
  that function.\<close>

definition mk_row :: "(rat \<Rightarrow> rat) \<Rightarrow> asset \<Rightarrow> int \<Rightarrow> rat \<Rightarrow> report_row" where
  "mk_row rnd a y dv =
     \<lparr>r_item_no = item_no a, r_purchase_date = purchase_date a, r_cost = cost a,
      r_carcass_value = carcass_value a, r_life_years = life_years a, r_year = y,
      r_depreciation = rnd dv, r_remaining_amount = rnd (remaining_amount a),
      r_last_depr_date = last_depr_date a\<rparr>"

subsection \<open>\<^verbatim>\<open>Asset.calculate_depreciation\<close>\<close>

text \<open>The loop \<^verbatim>\<open>for year in range(start_year, start_year + self.life_years)\<close> over
  the list of its years. The result is what the loop leaves in \<^verbatim>\<open>report_data\<close>, or the
  exception, together with the asset as the loop leaves it.\<close>

fun depr_loop ::
  "(rat \<Rightarrow> rat) \<Rightarrow> rat \<Rightarrow> int list \<Rightarrow> asset \<Rightarrow> report_row list
     \<Rightarrow> (py_error + report_row list) \<times> asset"
where
  "depr_loop rnd dpy [] a report_data = (Inr report_data, a)"
| "depr_loop rnd dpy (y # ys) a report_data =
     (if remaining_amount a \<le> carcass_value a then (Inr report_data, a)
      else
        let depreciation_value = min dpy (remaining_amount a - carcass_value a);
            a1 = a\<lparr>remaining_amount := remaining_amount a - depreciation_value\<rparr>
        in case datetime_date y 12 31 of
             Inl e \<Rightarrow> (Inl e, a1)
           | Inr d \<Rightarrow>
               let a2 = a1\<lparr>last_depr_date := Some d\<rparr>
               in depr_loop rnd dpy ys a2
                    (report_data @ [mk_row rnd a2 y depreciation_value]))"

text \<open>\<^verbatim>\<open>range(lo, hi)\<close> as a list.\<close>

definition py_range :: "int \<Rightarrow> int \<Rightarrow> int list" where
  "py_range lo hi = [lo..hi - 1]"

text \<open>The method returns \<^verbatim>\<open>None\<close> for an asset that does not validate, and the list
  \<^verbatim>\<open>report_data\<close> otherwise; \<^term>\<open>None\<close> and \<^term>\<open>Some rows\<close> here. Reading
  \<^verbatim>\<open>.year\<close> of a \<^verbatim>\<open>last_depr_date\<close> that is \<^verbatim>\<open>None\<close> raises \<^verbatim>\<open>AttributeError\<close>.\<close>

definition calculate_depreciation_with ::
  "(rat \<Rightarrow> rat) \<Rightarrow> asset \<Rightarrow> (py_error + report_row list option) \<times> asset"
where
  "calculate_depreciation_with rnd a =
     (let (is_valid, message) = validate a
      in if \<not> is_valid then (Inr None, a)
         else case straight_line_depreciation a of
                Inl e \<Rightarrow> (Inl e, a)
              | Inr depreciation_per_year \<Rightarrow>
                  (case last_depr_date a of
                     None \<Rightarrow> (Inl AttributeError, a)
                   | Some ld \<Rightarrow>
                       (let start_year = year ld
                        in (case depr_loop rnd depreciation_per_year
                                   (py_range start_year (start_year + life_years a)) a [] of
                              (Inl e, a') \<Rightarrow> (Inl e, a')
                            | (Inr report_data, a') \<Rightarrow> (Inr (Some report_data), a')))))"

text \<open>\<^verbatim>\<open>app.py\<close> (and \<^verbatim>\<open>main1.py\<close>): the row holds the amounts rounded to two
  places.\<close>

definition calculate_depreciation :: "asset \<Rightarrow> (py_error + report_row list option) \<times> asset" where
  "calculate_depreciation = calculate_depreciation_with round2"

text \<open>\<^verbatim>\<open>main.py\<close>: the row holds the amounts themselves.\<close>

definition calculate_depreciation_main ::
  "asset \<Rightarrow> (py_error + report_row list option) \<times> asset"
where
  "calculate_depreciation_main = calculate_depreciation_with (\<lambda>x. x)"

subsection \<open>\<^verbatim>\<open>generate_depreciation_report\<close>\<close>

text \<open>The test \<^verbatim>\<open>if item_no and item_no.strip()\<close> followed by the comparison of the
  stripped, lowered item numbers: whether the asset is skipped by the item filter.\<close>

definition item_filter_skips :: "string option \<Rightarrow> asset \<Rightarrow> bool" where
  "item_filter_skips item_no_f a =
     (case item_no_f of
        None \<Rightarrow> False
      | Some f \<Rightarrow>
          if f \<noteq> [] \<and> strip f \<noteq> []
          then lower (strip (item_no a)) \<noteq> lower (strip f)
          else False)"

text \<open>The block under \<^verbatim>\<open>if purchase_date_range\<close>: whether the asset is skipped by
  the date filter. A bound that is \<^verbatim>\<open>None\<close> is not compared.\<close>

definition date_filter_skips ::
  "(date option \<times> date option) option \<Rightarrow> asset \<Rightarrow> py_error + bool"
where
  "date_filter_skips purchase_date_range a =
     (case purchase_date_range of
        None \<Rightarrow> Inr False
      | Some (start_date, end_date) \<Rightarrow>
          (case (case start_date of None \<Rightarrow> Inr False
                                  | Some s \<Rightarrow> py_date_lt (purchase_date a) s) of
             Inl e \<Rightarrow> Inl e
           | Inr True \<Rightarrow> Inr True
           | Inr False \<Rightarrow>
               (case end_date of None \<Rightarrow> Inr False
                               | Some e \<Rightarrow> py_date_gt (purchase_date a) e)))"

text \<open>The loop \<^verbatim>\<open>for asset in assets\<close>. The state is the list of the assets, each
  as the loop leaves it, and \<^verbatim>\<open>report_data\<close>.\<close>

fun report_loop ::
  "asset list \<Rightarrow> string option \<Rightarrow> (date option \<times> date option) option \<Rightarrow> report_row list
     \<Rightarrow> (py_error + report_row list) \<times> asset list"
where
  "report_loop [] item_no_f pdr report_data = (Inr report_data, [])"
| "report_loop (a # as) item_no_f pdr report_data =
     (if item_filter_skips item_no_f a
      then (let (res, as') = report_loop as item_no_f pdr report_data in (res, a # as'))
      else case date_filter_skips pdr a of
             Inl e \<Rightarrow> (Inl e, a # as)
           | Inr True \<Rightarrow>
               (let (res, as') = report_loop as item_no_f pdr report_data in (res, a # as'))
           | Inr False \<Rightarrow>
               (case calculate_depreciation a of
                  (Inl e, a') \<Rightarrow> (Inl e, a' # as)
                | (Inr data, a') \<Rightarrow>
                    let report_data' =
                          (case data of
                             None \<Rightarrow> report_data
                           | Some rows \<Rightarrow>
                               if rows \<noteq> [] then report_data @ rows else report_data)
                    in (let (res, as') = report_loop as item_no_f pdr report_data'
                        in (res, a' # as'))))"

datatype report_outcome =
  NoData string
| Written string "string list" "report_row list"

definition report_headers :: "string list" where
  "report_headers =
     [''Item No'', ''Purchase Date'', ''Cost'', ''Carcass Value'', ''Life Years'', ''Year'',
      ''Depreciation'', ''Remaining Amount'', ''Last Depreciation Date'']"

text \<open>\<^verbatim>\<open>os.path.join("static", filename)\<close> on a POSIX system.\<close>

definition static_path :: "string \<Rightarrow> string" where
  "static_path filename =
     (case filename of
        c # cs \<Rightarrow> if c = CHR ''/'' then filename else ''static/'' @ filename
      | [] \<Rightarrow> ''static/'')"

text \<open>The function returns the message when there is no row, and otherwise the path
  of the file it has written: \<^term>\<open>Written path headers rows\<close> holds the path and what
  the file holds.\<close>

definition generate_depreciation_report ::
  "asset list \<Rightarrow> string \<Rightarrow> string option \<Rightarrow> (date option \<times> date option) option
     \<Rightarrow> (py_error + report_outcome) \<times> asset list"
where
  "generate_depreciation_report assets filename item_no_f pdr =
     (case report_loop assets item_no_f pdr [] of
        (Inl e, assets') \<Rightarrow> (Inl e, assets')
      | (Inr report_data, assets') \<Rightarrow>
          if report_data = []
          then (Inr (NoData ''No valid depreciation data available.''), assets')
          else (Inr (Written (static_path filename) report_headers report_data), assets'))"

section \<open>Notions of the specification\<close>

text \<open>What rounding does to a row: it replaces the two amounts and nothing else.\<close>

definition round_row :: "(rat \<Rightarrow> rat) \<Rightarrow> report_row \<Rightarrow> report_row" where
  "round_row rnd r =
     r\<lparr>r_depreciation := rnd (r_depreciation r),
       r_remaining_amount := rnd (r_remaining_amount r)\<rparr>"

text \<open>A schedule of rows that starts from the remaining amount \<open>rem\<close>: the amount of
  each year is the minimum of the annual amount \<open>d\<close> and of what remains above the carcass
  value \<open>cv\<close>, and the remaining amount of the row is the one before minus that amount.\<close>

fun schedule_ok :: "rat \<Rightarrow> rat \<Rightarrow> rat \<Rightarrow> report_row list \<Rightarrow> bool" where
  "schedule_ok d cv rem [] = True"
| "schedule_ok d cv rem (r # rs) =
     (r_depreciation r = min d (rem - cv) \<and> r_remaining_amount r = rem - r_depreciation r
      \<and> schedule_ok d cv (r_remaining_amount r) rs)"

text \<open>The item filter of the specification: the item number, trimmed and in lower
  case, equals the filter value, trimmed and in lower case.\<close>

definition item_matches :: "string \<Rightarrow> asset \<Rightarrow> bool" where
  "item_matches f a \<longleftrightarrow> lower (strip (item_no a)) = lower (strip f)"

text \<open>The date filter of the specification: the purchase date is before the start,
  when a start is given, or after the end, when an end is given.\<close>

definition date_outside :: "date option \<Rightarrow> date option \<Rightarrow> asset \<Rightarrow> bool" where
  "date_outside start_date end_date a \<longleftrightarrow>
     (case purchase_date a of
        None \<Rightarrow> False
      | Some p \<Rightarrow>
          (case start_date of None \<Rightarrow> False | Some s \<Rightarrow> date_less p s)
          \<or> (case end_date of None \<Rightarrow> False | Some e \<Rightarrow> date_less e p))"

section \<open>Sample data\<close>

text \<open>The four assets of the sample data in \<^verbatim>\<open>main.py\<close> and \<^verbatim>\<open>main1.py\<close>.\<close>

definition asset_A001 :: asset where
  "asset_A001 =
     Asset ''A001'' ''FA'' (Some \<lparr>year = 2020, month = 1, day = 1\<rparr>) 10000 1000 5 None None"

definition asset_A002 :: asset where
  "asset_A002 =
     Asset ''A002'' ''EQ'' (Some \<lparr>year = 2021, month = 5, day = 1\<rparr>) 5000 500 3 None None"

definition asset_A003 :: asset where
  "asset_A003 = Asset ''A003'' ''FA'' None 8000 800 4 None None"

definition asset_A004 :: asset where
  "asset_A004 =
     Asset ''A004'' ''FA'' (Some \<lparr>year = 2022, month = 3, day = 15\<rparr>) 15000 2000 6 None None"

text \<open>The list of the sample data, the assets of it that have a purchase date, and
  the date range of the call in \<^verbatim>\<open>main1.py\<close>.\<close>

definition sample_assets :: "asset list" where
  "sample_assets = [asset_A001, asset_A002, asset_A003, asset_A004]"

definition dated_assets :: "asset list" where
  "dated_assets = [asset_A001, asset_A002, asset_A004]"

definition sample_range :: "date option \<times> date option" where
  "sample_range =
     (Some \<lparr>year = 2022, month = 1, day = 1\<rparr>, Some \<lparr>year = 2023, month = 12, day = 31\<rparr>)"

text \<open>Further assets, as a row of the uploaded file can give them: a life of zero
  years, a negative life, an annual amount of a third, nothing to depreciate, a purchase
  in the last year of the calendar, and an asset at its carcass value with a life of zero
  years.\<close>

definition asset_zero_life :: asset where
  "asset_zero_life =
     Asset ''A005'' ''FA'' (Some \<lparr>year = 2020, month = 1, day = 1\<rparr>) 10000 1000 0 None None"


definition asset_thirds :: asset where
  "asset_thirds =
     Asset ''A007'' ''FA'' (Some \<lparr>year = 2020, month = 1, day = 1\<rparr>) 1 0 3 None None"




section \<open>The loop of the schedule\<close>

lemma depr_loop_acc:
  "depr_loop rnd d ys a acc =
     (case depr_loop rnd d ys a [] of
        (Inl e, a') \<Rightarrow> (Inl e, a')
      | (Inr rows, a') \<Rightarrow> (Inr (acc @ rows), a'))"
proof (induction ys arbitrary: a acc)
  case Nil
  show ?case by simp
next
  case (Cons y ys)
  show ?case
  proof (cases "remaining_amount a \<le> carcass_value a")
    case True
    then show ?thesis by simp
  next
    case False
    show ?thesis
    proof (cases "datetime_date y 12 31")
      case (Inl e)
      with False show ?thesis by (simp add: Let_def)
    next
      case (Inr dt)
      define dv where "dv = min d (remaining_amount a - carcass_value a)"
      define a2 where "a2 = a\<lparr>remaining_amount := remaining_amount a - dv, last_depr_date := Some dt\<rparr>"
      define row where "row = mk_row rnd a2 y dv"
      have step: "depr_loop rnd d (y # ys) a acc' = depr_loop rnd d ys a2 (acc' @ [row])" for acc'
        using False Inr by (simp add: Let_def dv_def a2_def row_def)
      have A: "depr_loop rnd d ys a2 (acc @ [row]) =
                 (case depr_loop rnd d ys a2 [] of
                    (Inl e, a') \<Rightarrow> (Inl e, a')
                  | (Inr rows, a') \<Rightarrow> (Inr ((acc @ [row]) @ rows), a'))"
        by (rule Cons.IH)
      have B: "depr_loop rnd d ys a2 [row] =
                 (case depr_loop rnd d ys a2 [] of
                    (Inl e, a') \<Rightarrow> (Inl e, a')
                  | (Inr rows, a') \<Rightarrow> (Inr ([row] @ rows), a'))"
        by (rule Cons.IH)
      show ?thesis
        by (simp only: step append_Nil A B) (simp split: prod.splits sum.splits)
    qed
  qed
qed

lemma depr_loop_Cons:
  "depr_loop rnd d (y # ys) a [] =
     (if remaining_amount a \<le> carcass_value a then (Inr [], a)
      else
        let dv = min d (remaining_amount a - carcass_value a);
            a1 = a\<lparr>remaining_amount := remaining_amount a - dv\<rparr>
        in case datetime_date y 12 31 of
             Inl e \<Rightarrow> (Inl e, a1)
           | Inr dt \<Rightarrow>
               let a2 = a1\<lparr>last_depr_date := Some dt\<rparr>
               in (case depr_loop rnd d ys a2 [] of
                     (Inl e, a') \<Rightarrow> (Inl e, a')
                   | (Inr rows, a') \<Rightarrow> (Inr (mk_row rnd a2 y dv # rows), a')))"
  by (simp add: Let_def depr_loop_acc [of _ _ _ _ "[_]"] split: sum.splits prod.splits)

lemma mk_row_round: "mk_row rnd a y dv = round_row rnd (mk_row (\<lambda>x. x) a y dv)"
  by (simp add: mk_row_def round_row_def)

lemma depr_loop_rnd:
  "depr_loop rnd d ys a [] =
     (case depr_loop (\<lambda>x. x) d ys a [] of
        (Inl e, a') \<Rightarrow> (Inl e, a')
      | (Inr rows, a') \<Rightarrow> (Inr (map (round_row rnd) rows), a'))"
proof (induction ys arbitrary: a)
  case Nil
  show ?case by simp
next
  case (Cons y ys)
  show ?case
    unfolding depr_loop_Cons
    by (simp add: Let_def Cons.IH [of "_\<lparr>remaining_amount := _, last_depr_date := _\<rparr>"] mk_row_round [of rnd]
        split: sum.splits prod.splits)
qed


declare depr_loop.simps(2) [simp del]

lemma depr_loop_stop:
  "remaining_amount a \<le> carcass_value a \<Longrightarrow> depr_loop rnd d ys a [] = (Inr [], a)"
  by (cases ys) (simp_all add: depr_loop_Cons)

lemma datetime_date_dec31:
  "datetime_date y 12 31 =
     (if 1 \<le> y \<and> y \<le> 9999 then Inr \<lparr>year = y, month = 12, day = 31\<rparr> else Inl ValueError)"
  by (simp add: datetime_date_def days_in_month_def)


lemma depr_loop_error:
  "depr_loop rnd d ys a [] = (Inl e, a') \<Longrightarrow> e = ValueError"
proof (induction ys arbitrary: a)
  case Nil
  then show ?case by simp
next
  case (Cons y ys)
  show ?case
  proof (cases "remaining_amount a \<le> carcass_value a")
    case True
    with Cons.prems show ?thesis by (simp add: depr_loop_stop)
  next
    case False
    show ?thesis
    proof (cases "1 \<le> y \<and> y \<le> 9999")
      case False
      with \<open>\<not> remaining_amount a \<le> carcass_value a\<close> Cons.prems show ?thesis
        by (auto simp: depr_loop_Cons Let_def datetime_date_dec31)
    next
      case True
      define a2 where "a2 = a\<lparr>remaining_amount :=
          remaining_amount a - min d (remaining_amount a - carcass_value a),
          last_depr_date := Some \<lparr>year = y, month = 12, day = 31\<rparr>\<rparr>"
      have "depr_loop rnd d ys a2 [] = (Inl e, a')"
        using False True Cons.prems
        by (auto simp: depr_loop_Cons Let_def a2_def datetime_date_dec31 split: sum.splits prod.splits)
      then show ?thesis by (rule Cons.IH)
    qed
  qed
qed

lemma depr_loop_schedule:
  "depr_loop (\<lambda>x. x) d ys a [] = (Inr rows, a') \<Longrightarrow>
     schedule_ok d (carcass_value a) (remaining_amount a) rows
     \<and> remaining_amount a' = (if rows = [] then remaining_amount a
                               else r_remaining_amount (last rows))
     \<and> length rows \<le> length ys"
proof (induction ys arbitrary: a rows)
  case Nil
  then show ?case by auto
next
  case (Cons y ys)
  show ?case
  proof (cases "remaining_amount a \<le> carcass_value a")
    case True
    with Cons.prems show ?thesis by (auto simp: depr_loop_stop)
  next
    case False
    define dv where "dv = min d (remaining_amount a - carcass_value a)"
    define a2 where "a2 = a\<lparr>remaining_amount := remaining_amount a - dv,
          last_depr_date := Some \<lparr>year = y, month = 12, day = 31\<rparr>\<rparr>"
    from False Cons.prems obtain rows2 where
      r2: "depr_loop (\<lambda>x. x) d ys a2 [] = (Inr rows2, a')"
      and rows: "rows = mk_row (\<lambda>x. x) a2 y dv # rows2"
      by (auto simp: depr_loop_Cons Let_def a2_def dv_def datetime_date_dec31
               split: sum.splits prod.splits if_splits)
    from Cons.IH [OF r2] show ?thesis
      by (auto simp: rows a2_def mk_row_def dv_def)
  qed
qed

lemma schedule_ok_sum:
  "schedule_ok d cv rem rows \<Longrightarrow>
     (if rows = [] then rem else r_remaining_amount (last rows)) =
       rem - sum_list (map r_depreciation rows)"
  by (induction rows arbitrary: rem) auto



lemma length_py_range: "length (py_range lo (lo + n)) = nat n"
  by (simp add: py_range_def)


section \<open>The method \<^verbatim>\<open>calculate_depreciation\<close>\<close>

lemma calc_with_invalid:
  "\<not> fst (validate a) \<Longrightarrow> calculate_depreciation_with rnd a = (Inr None, a)"
  by (cases "validate a") (simp add: calculate_depreciation_with_def)

lemma calc_with_zero:
  "fst (validate a) \<Longrightarrow> life_years a = 0 \<Longrightarrow>
     calculate_depreciation_with rnd a = (Inl ZeroDivisionError, a)"
  by (cases "validate a")
     (simp add: calculate_depreciation_with_def straight_line_depreciation_def)


lemma calc_with_Some:
  assumes "calculate_depreciation_with rnd a = (Inr (Some rows), a')"
  shows "fst (validate a) \<and> life_years a \<noteq> 0 \<and>
     (\<exists>ld. last_depr_date a = Some ld \<and>
        depr_loop rnd ((cost a - carcass_value a) / of_int (life_years a))
          (py_range (year ld) (year ld + life_years a)) a [] = (Inr rows, a'))"
  using assms
  by (auto simp: calculate_depreciation_with_def straight_line_depreciation_def Let_def
           split: prod.splits sum.splits option.splits if_splits)

lemma calc_with_rnd:
  "calculate_depreciation_with rnd a =
     (case calculate_depreciation_with (\<lambda>x. x) a of
        (Inl e, a') \<Rightarrow> (Inl e, a')
      | (Inr None, a') \<Rightarrow> (Inr None, a')
      | (Inr (Some rows), a') \<Rightarrow> (Inr (Some (map (round_row rnd) rows)), a'))"
  by (simp add: calculate_depreciation_with_def Let_def depr_loop_rnd [of rnd]
           split: prod.splits sum.splits option.splits)

lemma calc_with_error:
  "calculate_depreciation_with rnd a = (Inl e, a') \<Longrightarrow> life_years a \<noteq> 0 \<Longrightarrow>
     e \<noteq> ZeroDivisionError"
  by (auto simp: calculate_depreciation_with_def straight_line_depreciation_def Let_def
           split: prod.splits sum.splits option.splits if_splits dest: depr_loop_error)


lemma calc_main_Some_schedule:
  assumes "calculate_depreciation_with (\<lambda>x. x) a = (Inr (Some urows), a')"
  shows "schedule_ok ((cost a - carcass_value a) / of_int (life_years a)) (carcass_value a)
           (remaining_amount a) urows
         \<and> remaining_amount a' = remaining_amount a - sum_list (map r_depreciation urows)
         \<and> int (length urows) \<le> max 0 (life_years a)"
proof -
  from calc_with_Some [OF assms] obtain ld :: date where
    loop: "depr_loop (\<lambda>x. x) ((cost a - carcass_value a) / of_int (life_years a))
             (py_range (year ld) (year ld + life_years a)) a [] = (Inr urows, a')"
    by auto
  from depr_loop_schedule [OF loop] schedule_ok_sum [of _ _ _ urows]
  show ?thesis by (auto simp: length_py_range)
qed






section \<open>The loop of the report\<close>

lemma fst_report_loop_Cons:
  "fst (report_loop (a # as) f pdr acc) =
     (if item_filter_skips f a then fst (report_loop as f pdr acc)
      else case date_filter_skips pdr a of
             Inl e \<Rightarrow> Inl e
           | Inr True \<Rightarrow> fst (report_loop as f pdr acc)
           | Inr False \<Rightarrow>
               (case calculate_depreciation a of
                  (Inl e, a') \<Rightarrow> Inl e
                | (Inr data, a') \<Rightarrow>
                    fst (report_loop as f pdr
                      (case data of
                         None \<Rightarrow> acc
                       | Some rows \<Rightarrow> if rows \<noteq> [] then acc @ rows else acc))))"
  by (simp add: Let_def split: prod.splits sum.splits bool.splits)

lemma snd_report_loop_Cons:
  "snd (report_loop (a # as) f pdr acc) =
     (if item_filter_skips f a then a # snd (report_loop as f pdr acc)
      else case date_filter_skips pdr a of
             Inl e \<Rightarrow> a # as
           | Inr True \<Rightarrow> a # snd (report_loop as f pdr acc)
           | Inr False \<Rightarrow>
               (case calculate_depreciation a of
                  (Inl e, a') \<Rightarrow> a' # as
                | (Inr data, a') \<Rightarrow>
                    a' # snd (report_loop as f pdr
                      (case data of
                         None \<Rightarrow> acc
                       | Some rows \<Rightarrow> if rows \<noteq> [] then acc @ rows else acc))))"
  by (simp add: Let_def split: prod.splits sum.splits bool.splits)

lemma strip_Nil: "strip [] = []"
  by (simp add: strip_def)

lemma item_filter_skips_Some:
  "strip f \<noteq> [] \<Longrightarrow> item_filter_skips (Some f) a = (\<not> item_matches f a)"
  by (auto simp: item_filter_skips_def item_matches_def strip_Nil)

lemma item_filter_skips_None: "item_filter_skips None a = False"
  by (simp add: item_filter_skips_def)

lemma date_filter_skips_None: "date_filter_skips None a = Inr False"
  by (simp add: date_filter_skips_def)

lemma date_filter_skips_open: "date_filter_skips (Some (None, None)) a = Inr False"
  by (simp add: date_filter_skips_def)

lemma date_filter_skips_Some:
  "purchase_date a \<noteq> None \<Longrightarrow>
     date_filter_skips (Some (s, e)) a = Inr (date_outside s e a)"
  by (auto simp: date_filter_skips_def date_outside_def py_date_lt_def py_date_gt_def
           split: option.splits bool.splits)

lemma report_loop_item:
  "strip f \<noteq> [] \<Longrightarrow>
     fst (report_loop assets (Some f) pdr acc) =
     fst (report_loop (filter (item_matches f) assets) None pdr acc)"
proof (induction assets arbitrary: acc)
  case Nil
  show ?case by simp
next
  case (Cons a as)
  note IH = Cons.IH [OF Cons.prems]
  show ?case
  proof (cases "item_matches f a")
    case True
    then show ?thesis
      by (simp add: fst_report_loop_Cons item_filter_skips_Some [OF Cons.prems]
            item_filter_skips_None IH del: report_loop.simps
            split: sum.splits prod.splits bool.splits)
  next
    case False
    then show ?thesis
      by (simp add: fst_report_loop_Cons item_filter_skips_Some [OF Cons.prems] IH
            del: report_loop.simps)
  qed
qed

lemma report_loop_dates:
  "\<forall>a\<in>set assets. purchase_date a \<noteq> None \<Longrightarrow>
     fst (report_loop assets f (Some (s, e)) acc) =
     fst (report_loop (filter (\<lambda>a. \<not> date_outside s e a) assets) f None acc)"
proof (induction assets arbitrary: acc)
  case Nil
  show ?case by simp
next
  case (Cons a as)
  from Cons.prems have pa: "purchase_date a \<noteq> None"
    and rest: "\<forall>a\<in>set as. purchase_date a \<noteq> None"
    by simp_all
  note IH = Cons.IH [OF rest]
  show ?case
  proof (cases "date_outside s e a")
    case True
    then show ?thesis
      by (simp add: fst_report_loop_Cons date_filter_skips_Some [OF pa] IH
            del: report_loop.simps)
  next
    case False
    then show ?thesis
      by (simp add: fst_report_loop_Cons date_filter_skips_Some [OF pa]
            date_filter_skips_None IH del: report_loop.simps
            split: sum.splits prod.splits bool.splits)
  qed
qed

lemma report_loop_open:
  "report_loop assets f (Some (None, None)) acc = report_loop assets f None acc"
  by (induction assets arbitrary: acc)
     (simp_all add: date_filter_skips_None date_filter_skips_open
        split: sum.splits prod.splits bool.splits)

lemma report_loop_assets:
  "\<forall>a\<in>set assets. purchase_date a \<noteq> None \<Longrightarrow>
   fst (report_loop assets f (Some (s, e)) acc) = Inr rows \<Longrightarrow>
     snd (report_loop assets f (Some (s, e)) acc) =
       map (\<lambda>a. if item_filter_skips f a \<or> date_outside s e a then a
                 else snd (calculate_depreciation a)) assets"
proof (induction assets arbitrary: acc)
  case Nil
  show ?case by simp
next
  case (Cons a as)
  from Cons.prems have pa: "purchase_date a \<noteq> None"
    and rest: "\<forall>a\<in>set as. purchase_date a \<noteq> None"
    by simp_all
  note IH = Cons.IH [OF rest]
  show ?case
  proof (cases "item_filter_skips f a \<or> date_outside s e a")
    case True
    with Cons.prems(2) have "fst (report_loop as f (Some (s, e)) acc) = Inr rows"
      by (auto simp: fst_report_loop_Cons date_filter_skips_Some [OF pa]
               simp del: report_loop.simps split: if_splits)
    from IH [OF this] True show ?thesis
      by (auto simp: snd_report_loop_Cons date_filter_skips_Some [OF pa]
               simp del: report_loop.simps)
  next
    case False
    obtain res a' where c: "calculate_depreciation a = (res, a')"
      by (cases "calculate_depreciation a")
    with Cons.prems(2) False obtain data where res: "res = Inr data"
      by (cases res)
         (auto simp: fst_report_loop_Cons date_filter_skips_Some [OF pa]
               simp del: report_loop.simps)
    define acc' where "acc' = (case data of None \<Rightarrow> acc
       | Some rows \<Rightarrow> if rows \<noteq> [] then acc @ rows else acc)"
    from Cons.prems(2) False c res
    have "fst (report_loop as f (Some (s, e)) acc') = Inr rows"
      by (simp add: fst_report_loop_Cons date_filter_skips_Some [OF pa] acc'_def
            del: report_loop.simps)
    from IH [OF this] False c res show ?thesis
      by (simp add: snd_report_loop_Cons date_filter_skips_Some [OF pa] acc'_def
            del: report_loop.simps)
  qed
qed

lemma depr_loop_item_no:
  "depr_loop rnd d ys a [] = (Inr rows, a') \<Longrightarrow> \<forall>r\<in>set rows. r_item_no r = item_no a"
proof (induction ys arbitrary: a rows)
  case Nil
  then show ?case by simp
next
  case (Cons y ys)
  show ?case
  proof (cases "remaining_amount a \<le> carcass_value a")
    case True
    with Cons.prems show ?thesis by (simp add: depr_loop_stop)
  next
    case False
    define dv where "dv = min d (remaining_amount a - carcass_value a)"
    define a2 where "a2 = a\<lparr>remaining_amount := remaining_amount a - dv,
          last_depr_date := Some \<lparr>year = y, month = 12, day = 31\<rparr>\<rparr>"
    from False Cons.prems obtain rows2 where
      r2: "depr_loop rnd d ys a2 [] = (Inr rows2, a')"
      and rows: "rows = mk_row rnd a2 y dv # rows2"
      by (auto simp: depr_loop_Cons Let_def a2_def dv_def datetime_date_dec31
               split: sum.splits prod.splits if_splits)
    from Cons.IH [OF r2] show ?thesis
      by (simp add: rows a2_def mk_row_def)
  qed
qed

lemma calc_item_no:
  assumes "calculate_depreciation a = (Inr (Some rows), a')"
  shows "\<forall>r\<in>set rows. r_item_no r = item_no a"
proof -
  from assms have "calculate_depreciation_with round2 a = (Inr (Some rows), a')"
    by (simp add: calculate_depreciation_def)
  from calc_with_Some [OF this] obtain ld :: date where
    "depr_loop round2 ((cost a - carcass_value a) / of_int (life_years a))
       (py_range (year ld) (year ld + life_years a)) a [] = (Inr rows, a')"
    by auto
  then show ?thesis by (rule depr_loop_item_no)
qed

lemma report_loop_item_no:
  "fst (report_loop assets f pdr acc) = Inr rows \<Longrightarrow>
     \<forall>r\<in>set rows. r \<in> set acc \<or> (\<exists>a\<in>set assets. r_item_no r = item_no a)"
proof (induction assets arbitrary: acc)
  case Nil
  then show ?case by simp
next
  case (Cons a as)
  show ?case
  proof (cases "item_filter_skips f a \<or> date_filter_skips pdr a = Inr True")
    case True
    with Cons.prems have "fst (report_loop as f pdr acc) = Inr rows"
      by (auto simp: fst_report_loop_Cons simp del: report_loop.simps split: if_splits)
    from Cons.IH [OF this] show ?thesis by auto
  next
    case False
    obtain res a' where c: "calculate_depreciation a = (res, a')"
      by (cases "calculate_depreciation a")
    from Cons.prems False have d: "date_filter_skips pdr a = Inr False"
      by (auto simp: fst_report_loop_Cons simp del: report_loop.simps
               split: sum.splits bool.splits)
    with Cons.prems False c obtain data where res: "res = Inr data"
      by (cases res) (auto simp: fst_report_loop_Cons simp del: report_loop.simps)
    define acc' where "acc' = (case data of None \<Rightarrow> acc
       | Some rows \<Rightarrow> if rows \<noteq> [] then acc @ rows else acc)"
    from Cons.prems False c res d
    have "fst (report_loop as f pdr acc') = Inr rows"
      by (simp add: fst_report_loop_Cons acc'_def del: report_loop.simps)
    from Cons.IH [OF this]
    have *: "\<forall>r\<in>set rows. r \<in> set acc' \<or> (\<exists>a\<in>set as. r_item_no r = item_no a)" .
    have "\<forall>r\<in>set acc'. r \<in> set acc \<or> r_item_no r = item_no a"
      using calc_item_no [of a _ a'] c res
      by (auto simp: acc'_def split: option.splits if_splits)
    with * show ?thesis by fastforce
  qed
qed

lemma fst_generate:
  "fst (generate_depreciation_report assets fn f pdr) =
     (case fst (report_loop assets f pdr []) of
        Inl e \<Rightarrow> Inl e
      | Inr rows \<Rightarrow>
          if rows = [] then Inr (NoData ''No valid depreciation data available.'')
          else Inr (Written (static_path fn) report_headers rows))"
  by (simp add: generate_depreciation_report_def split: prod.splits sum.splits)

lemma snd_generate:
  "snd (generate_depreciation_report assets fn f pdr) = snd (report_loop assets f pdr [])"
  by (simp add: generate_depreciation_report_def split: prod.splits sum.splits)


section \<open>Rounding is monotone\<close>






section \<open>Validation\<close>

text \<open>
  C8. \<^verbatim>\<open>validate\<close> returns \<^verbatim>\<open>False\<close> with the message that the item is skipped for
  not being a fixed asset when \<^verbatim>\<open>item_type\<close> is not \<^verbatim>\<open>"FA"\<close>; \<^verbatim>\<open>False\<close> with the message
  of the missing purchase date when the type is \<^verbatim>\<open>"FA"\<close> and the purchase date is absent;
  and \<^verbatim>\<open>(True, None)\<close> in every other case. The method only reads the asset: its
  result is the pair alone, and no asset is returned changed.
\<close>

theorem validate_cases:
  "(item_type a \<noteq> ''FA'' \<longrightarrow>
      validate a =
        (False, Some (''Skipping item '' @ item_no a @ '': Not a Fixed Asset (FA).'')))
   \<and> (item_type a = ''FA'' \<and> purchase_date a = None \<longrightarrow>
      validate a =
        (False, Some (''Error: Missing purchase date for item '' @ item_no a @ ''.'')))
   \<and> (item_type a = ''FA'' \<and> purchase_date a \<noteq> None \<longrightarrow> validate a = (True, None))"
  by (simp add: validate_def)

theorem validate_cases_witness:
  "validate asset_A002 = (False, Some ''Skipping item A002: Not a Fixed Asset (FA).'')
   \<and> validate asset_A003 = (False, Some ''Error: Missing purchase date for item A003.'')
   \<and> validate asset_A001 = (True, None)"
  using validate_cases [of asset_A002] validate_cases [of asset_A003]
    validate_cases [of asset_A001]
  by (simp add: asset_A001_def asset_A002_def asset_A003_def Asset_def)

text \<open>
  C4. An asset whose \<^verbatim>\<open>item_type\<close> is not \<^verbatim>\<open>"FA"\<close>, or whose purchase date is absent,
  gets no report rows from \<^verbatim>\<open>calculate_depreciation\<close>, whatever its other fields are: the
  method returns \<^verbatim>\<open>None\<close> and leaves the asset as it is.
\<close>

theorem invalid_asset_no_rows:
  "item_type a \<noteq> ''FA'' \<or> purchase_date a = None \<Longrightarrow>
     calculate_depreciation a = (Inr None, a)"
  unfolding calculate_depreciation_def
  by (rule calc_with_invalid) (auto simp: validate_def)

theorem invalid_asset_no_rows_witness:
  "item_type asset_A002 \<noteq> ''FA'' \<and> purchase_date asset_A003 = None
   \<and> calculate_depreciation asset_A002 = (Inr None, asset_A002)
   \<and> calculate_depreciation asset_A003 = (Inr None, asset_A003)"
proof -
  have h2: "item_type asset_A002 \<noteq> ''FA''" by (simp add: asset_A002_def Asset_def)
  have h3: "purchase_date asset_A003 = None" by (simp add: asset_A003_def Asset_def)
  show ?thesis
    using h2 h3 invalid_asset_no_rows [of asset_A002] invalid_asset_no_rows [of asset_A003]
    by simp
qed

section \<open>The life of an asset\<close>

text \<open>
  C3, as the specification states it: validation rejects an asset with a life of zero
  years, so that the division never has a zero divisor. It does not hold: the asset
  \<^term>\<open>asset_zero_life\<close> passes \<^verbatim>\<open>validate\<close>, and the division raises.
\<close>

theorem zero_life_counterexample:
  "life_years asset_zero_life = 0
   \<and> validate asset_zero_life = (True, None)
   \<and> straight_line_depreciation asset_zero_life = Inl ZeroDivisionError
   \<and> calculate_depreciation asset_zero_life = (Inl ZeroDivisionError, asset_zero_life)"
  by (simp add: asset_zero_life_def Asset_def validate_def straight_line_depreciation_def
        calculate_depreciation_def calculate_depreciation_with_def)

text \<open>
  C3, amended. \<^verbatim>\<open>validate\<close> does not read \<^verbatim>\<open>life_years\<close>. For every asset that passes
  \<^verbatim>\<open>validate\<close> and whose \<^verbatim>\<open>life_years\<close> is not zero, the division has a nonzero divisor:
  \<^verbatim>\<open>straight_line_depreciation\<close> returns the quotient and \<^verbatim>\<open>calculate_depreciation\<close> raises
  no \<^verbatim>\<open>ZeroDivisionError\<close>.
\<close>

theorem nonzero_life_no_division_by_zero:
  "validate (a\<lparr>life_years := n\<rparr>) = validate a
   \<and> (fst (validate a) \<and> life_years a \<noteq> 0 \<longrightarrow>
        straight_line_depreciation a =
          Inr ((cost a - carcass_value a) / of_int (life_years a))
        \<and> fst (calculate_depreciation a) \<noteq> Inl ZeroDivisionError)"
proof -
  have "fst (calculate_depreciation a) \<noteq> Inl ZeroDivisionError" if nz: "life_years a \<noteq> 0"
  proof
    assume "fst (calculate_depreciation a) = Inl ZeroDivisionError"
    then have "calculate_depreciation_with round2 a =
        (Inl ZeroDivisionError, snd (calculate_depreciation a))"
      by (simp add: calculate_depreciation_def prod_eq_iff)
    from calc_with_error [OF this nz] show False by simp
  qed
  then show ?thesis
    by (simp add: validate_def straight_line_depreciation_def)
qed

theorem nonzero_life_no_division_by_zero_witness:
  "validate (asset_A001\<lparr>life_years := 0\<rparr>) = validate asset_A001
   \<and> fst (validate asset_A001) \<and> life_years asset_A001 \<noteq> 0
   \<and> straight_line_depreciation asset_A001 = Inr 1800
   \<and> fst (calculate_depreciation asset_A001) \<noteq> Inl ZeroDivisionError"
proof -
  have h: "fst (validate asset_A001) \<and> life_years asset_A001 \<noteq> 0"
    by (simp add: asset_A001_def Asset_def validate_def)
  have v: "(cost asset_A001 - carcass_value asset_A001) / of_int (life_years asset_A001) = 1800"
    by (simp add: asset_A001_def Asset_def)
  show ?thesis
    using h v nonzero_life_no_division_by_zero [where a = asset_A001 and n = 0] by simp
qed

section \<open>The remaining amount\<close>



section \<open>An asset that is already at its carcass value\<close>




section \<open>Full depreciation\<close>





section \<open>The number of rows\<close>




section \<open>Rounding\<close>

text \<open>
  C9. The amount taken from \<^verbatim>\<open>remaining_amount\<close> in each iteration is the amount that
  is not rounded, and \<^verbatim>\<open>round(x, 2)\<close> touches only the two amounts written into the row.
  The run of \<^verbatim>\<open>app.py\<close> leaves the asset in the state in which the run without any
  rounding (\<^verbatim>\<open>main.py\<close>) leaves it, also when an exception ends the run; its result is
  that of the run without rounding with \<^term>\<open>round_row round2\<close> applied to each row;
  and in the run without rounding each row takes its own amount from the remaining
  amount before it, so that the asset ends at its first \<^verbatim>\<open>remaining_amount\<close> minus the sum
  of the amounts that are not rounded.
\<close>

theorem rounding_not_fed_back:
  "snd (calculate_depreciation a) = snd (calculate_depreciation_main a)
   \<and> fst (calculate_depreciation a)
       = map_sum (\<lambda>e. e) (map_option (map (round_row round2)))
           (fst (calculate_depreciation_main a))
   \<and> (calculate_depreciation_main a = (Inr (Some urows), a') \<longrightarrow>
        schedule_ok ((cost a - carcass_value a) / of_int (life_years a))
          (carcass_value a) (remaining_amount a) urows
        \<and> remaining_amount a' = remaining_amount a - sum_list (map r_depreciation urows))"
proof (intro conjI impI)
  show "snd (calculate_depreciation a) = snd (calculate_depreciation_main a)"
    unfolding calculate_depreciation_def calculate_depreciation_main_def
    by (subst calc_with_rnd) (simp split: prod.splits sum.splits option.splits)
  show "fst (calculate_depreciation a)
       = map_sum (\<lambda>e. e) (map_option (map (round_row round2)))
           (fst (calculate_depreciation_main a))"
    unfolding calculate_depreciation_def calculate_depreciation_main_def
    by (subst calc_with_rnd) (simp split: prod.splits sum.splits option.splits)
next
  assume "calculate_depreciation_main a = (Inr (Some urows), a')"
  then have "calculate_depreciation_with (\<lambda>x. x) a = (Inr (Some urows), a')"
    by (simp add: calculate_depreciation_main_def)
  from calc_main_Some_schedule [OF this]
  show "schedule_ok ((cost a - carcass_value a) / of_int (life_years a))
          (carcass_value a) (remaining_amount a) urows"
    and "remaining_amount a' = remaining_amount a - sum_list (map r_depreciation urows)"
    by simp_all
qed

theorem rounding_not_fed_back_witness:
  "(\<exists>urows a'. calculate_depreciation_main asset_thirds = (Inr (Some urows), a')
      \<and> map r_depreciation urows = [1 / 3, 1 / 3, 1 / 3]
      \<and> map r_remaining_amount urows = [2 / 3, 1 / 3, 0]
      \<and> fst (calculate_depreciation asset_thirds) = Inr (Some (map (round_row round2) urows))
      \<and> map r_depreciation (map (round_row round2) urows) = [33 / 100, 33 / 100, 33 / 100]
      \<and> map r_remaining_amount (map (round_row round2) urows) = [67 / 100, 33 / 100, 0]
      \<and> snd (calculate_depreciation asset_thirds) = a'
      \<and> remaining_amount a'
          = remaining_amount asset_thirds - sum_list (map r_depreciation urows)
      \<and> remaining_amount a' = 0)"
proof -
  have v: "case calculate_depreciation_main asset_thirds of
          (Inr (Some urows), a') \<Rightarrow>
             map r_depreciation urows = [1 / 3, 1 / 3, 1 / 3]
             \<and> map r_remaining_amount urows = [2 / 3, 1 / 3, 0]
             \<and> map r_depreciation (map (round_row round2) urows)
                 = [33 / 100, 33 / 100, 33 / 100]
             \<and> map r_remaining_amount (map (round_row round2) urows)
                 = [67 / 100, 33 / 100, 0]
             \<and> remaining_amount a' = 0
        | _ \<Rightarrow> False"
    by code_simp
  then obtain urows a' where
    u: "calculate_depreciation_main asset_thirds = (Inr (Some urows), a')"
    by (auto split: prod.splits sum.splits option.splits)
  from v u rounding_not_fed_back [where a = asset_thirds and urows = urows and a' = a']
  show ?thesis by auto
qed

section \<open>The filters of the report\<close>

text \<open>
  C5. For every list of assets and every item filter that is not empty after trimming,
  \<^verbatim>\<open>generate_depreciation_report\<close> has rows only for the assets whose \<^verbatim>\<open>item_no\<close>, after
  \<^verbatim>\<open>strip\<close> and \<^verbatim>\<open>lower\<close>, equals the filter value after \<^verbatim>\<open>strip\<close> and \<^verbatim>\<open>lower\<close>: its
  result is the result, without an item filter, on the list of the matching assets, and
  every row it writes carries a matching item number. The filter \<^verbatim>\<open>" a004 "\<close> matches the
  item number \<^verbatim>\<open>"A004"\<close>.
\<close>

theorem item_filter:
  assumes "strip f \<noteq> []"
  shows "fst (generate_depreciation_report assets fn (Some f) pdr)
           = fst (generate_depreciation_report (filter (item_matches f) assets) fn None pdr)
         \<and> (\<forall>path hs rows.
               fst (generate_depreciation_report assets fn (Some f) pdr)
                 = Inr (Written path hs rows) \<longrightarrow>
               (\<forall>r\<in>set rows. lower (strip (r_item_no r)) = lower (strip f)))"
proof (intro conjI allI impI)
  show eq: "fst (generate_depreciation_report assets fn (Some f) pdr)
           = fst (generate_depreciation_report (filter (item_matches f) assets) fn None pdr)"
    by (simp add: fst_generate report_loop_item [OF assms])
  fix path hs rows
  assume "fst (generate_depreciation_report assets fn (Some f) pdr) = Inr (Written path hs rows)"
  then have "fst (report_loop (filter (item_matches f) assets) None pdr []) = Inr rows"
    by (auto simp: fst_generate report_loop_item [OF assms] split: sum.splits if_splits)
  from report_loop_item_no [OF this]
  show "\<forall>r\<in>set rows. lower (strip (r_item_no r)) = lower (strip f)"
    by (auto simp: item_matches_def)
qed

theorem item_filter_witness:
  "strip '' a004 '' \<noteq> []
   \<and> item_matches '' a004 '' asset_A004
   \<and> filter (item_matches '' a004 '') sample_assets = [asset_A004]
   \<and> fst (generate_depreciation_report sample_assets ''depreciation_report.csv''
            (Some '' a004 '') None)
       = fst (generate_depreciation_report [asset_A004] ''depreciation_report.csv'' None None)
   \<and> (\<exists>rows. fst (generate_depreciation_report sample_assets ''depreciation_report.csv''
                  (Some '' a004 '') None)
             = Inr (Written ''static/depreciation_report.csv'' report_headers rows)
           \<and> map r_item_no rows = [''A004'', ''A004'', ''A004'', ''A004'', ''A004'', ''A004'']
           \<and> (\<forall>r\<in>set rows. lower (strip (r_item_no r)) = lower (strip '' a004 '')))"
proof -
  have h: "strip '' a004 '' \<noteq> []" by code_simp
  have m: "item_matches '' a004 '' asset_A004" by code_simp
  have fl: "filter (item_matches '' a004 '') sample_assets = [asset_A004]" by code_simp
  have v: "case fst (generate_depreciation_report sample_assets ''depreciation_report.csv''
                  (Some '' a004 '') None) of
             Inr (Written path hs rows) \<Rightarrow>
               path = ''static/depreciation_report.csv'' \<and> hs = report_headers
               \<and> map r_item_no rows = [''A004'', ''A004'', ''A004'', ''A004'', ''A004'', ''A004'']
           | _ \<Rightarrow> False"
    by code_simp
  from item_filter [OF h, of sample_assets "''depreciation_report.csv''" None] h m fl v
  show ?thesis
    by (auto split: sum.splits report_outcome.splits)
qed

text \<open>
  C6, as stated: for every list of assets and every date range the function skips
  exactly the assets purchased before the start or after the end. It does not hold for
  a list with an asset that has no purchase date: the asset is not one of those to
  skip, and the result would be that of the list without a date filter (no data), but
  the comparison of \<^verbatim>\<open>None\<close> with the start date raises \<^verbatim>\<open>TypeError\<close>.
\<close>

theorem absent_date_counterexample:
  "\<not> date_outside (Some \<lparr>year = 2022, month = 1, day = 1\<rparr>) None asset_A003
   \<and> generate_depreciation_report [asset_A003] ''depreciation_report.csv'' None
       (Some (Some \<lparr>year = 2022, month = 1, day = 1\<rparr>, None))
       = (Inl TypeError, [asset_A003])
   \<and> generate_depreciation_report [asset_A003] ''depreciation_report.csv'' None None
       = (Inr (NoData ''No valid depreciation data available.''), [asset_A003])"
  by code_simp

text \<open>
  C6, amended. For every list of assets that all have a purchase date, and every date
  range in which each bound may be absent, \<^verbatim>\<open>generate_depreciation_report\<close> skips exactly
  the assets whose purchase date is before the start (when a start is given) or after
  the end (when an end is given): its result is the result, without a date range, on
  the list without those assets, and when it returns, an asset of the list is left
  untouched if it is skipped by the item filter or by the date filter, and is otherwise
  as \<^verbatim>\<open>calculate_depreciation\<close> leaves it. With both bounds absent, and for every list
  of assets, the date filter skips nothing.
\<close>

theorem date_filter:
  "((\<forall>a\<in>set assets. purchase_date a \<noteq> None) \<longrightarrow>
      fst (generate_depreciation_report assets fn f (Some (s, e)))
        = fst (generate_depreciation_report
                 (filter (\<lambda>a. \<not> date_outside s e a) assets) fn f None)
      \<and> (\<forall>out. fst (generate_depreciation_report assets fn f (Some (s, e))) = Inr out \<longrightarrow>
            snd (generate_depreciation_report assets fn f (Some (s, e)))
              = map (\<lambda>a. if item_filter_skips f a \<or> date_outside s e a then a
                          else snd (calculate_depreciation a)) assets))
   \<and> generate_depreciation_report assets fn f (Some (None, None))
       = generate_depreciation_report assets fn f None"
proof (intro conjI allI impI)
  assume d: "\<forall>a\<in>set assets. purchase_date a \<noteq> None"
  show "fst (generate_depreciation_report assets fn f (Some (s, e)))
        = fst (generate_depreciation_report
                 (filter (\<lambda>a. \<not> date_outside s e a) assets) fn f None)"
    by (simp add: fst_generate report_loop_dates [OF d])
  fix out
  assume "fst (generate_depreciation_report assets fn f (Some (s, e))) = Inr out"
  then obtain rows where "fst (report_loop assets f (Some (s, e)) []) = Inr rows"
    by (auto simp: fst_generate split: sum.splits)
  from report_loop_assets [OF d this]
  show "snd (generate_depreciation_report assets fn f (Some (s, e)))
              = map (\<lambda>a. if item_filter_skips f a \<or> date_outside s e a then a
                          else snd (calculate_depreciation a)) assets"
    by (simp add: snd_generate)
next
  show "generate_depreciation_report assets fn f (Some (None, None))
       = generate_depreciation_report assets fn f None"
    by (simp add: generate_depreciation_report_def report_loop_open)
qed

theorem date_filter_witness:
  "list_all (\<lambda>a. purchase_date a \<noteq> None) dated_assets
   \<and> date_outside (fst sample_range) (snd sample_range) asset_A001
   \<and> \<not> date_outside (fst sample_range) (snd sample_range) asset_A004
   \<and> filter (\<lambda>a. \<not> date_outside (fst sample_range) (snd sample_range) a) dated_assets
       = [asset_A004]
   \<and> fst (generate_depreciation_report dated_assets ''depreciation_report.csv'' None
            (Some (fst sample_range, snd sample_range)))
       = fst (generate_depreciation_report [asset_A004] ''depreciation_report.csv'' None None)
   \<and> snd (generate_depreciation_report dated_assets ''depreciation_report.csv'' None
            (Some (fst sample_range, snd sample_range)))
       = [asset_A001, asset_A002, snd (calculate_depreciation asset_A004)]
   \<and> generate_depreciation_report dated_assets ''depreciation_report.csv'' None
        (Some (None, None))
       = generate_depreciation_report dated_assets ''depreciation_report.csv'' None None"
proof -
  have h: "\<forall>a\<in>set dated_assets. purchase_date a \<noteq> None"
    by (simp add: dated_assets_def asset_A001_def asset_A002_def asset_A004_def Asset_def)
  have o: "date_outside (fst sample_range) (snd sample_range) asset_A001"
    "date_outside (fst sample_range) (snd sample_range) asset_A002"
    "\<not> date_outside (fst sample_range) (snd sample_range) asset_A004"
    by code_simp+
  have i: "\<not> item_filter_skips None a" for a
    by (simp add: item_filter_skips_def)
  have v: "case fst (generate_depreciation_report dated_assets ''depreciation_report.csv''
                  None (Some (fst sample_range, snd sample_range))) of
             Inr out \<Rightarrow> True | _ \<Rightarrow> False"
    by code_simp
  from date_filter [where assets = dated_assets and fn = "''depreciation_report.csv''"
      and f = None and s = "fst sample_range" and e = "snd sample_range"] h o i v
  show ?thesis
    by (auto simp: dated_assets_def list_all_iff split: sum.splits)
qed

end
